theory Spec2Isabelle
  imports Main "HOL-Library.Word"
begin

section \<open>Exceptions\<close>

text \<open>
  Every \<^verbatim>\<open>throw\<close> of the modelled sources becomes a value: a function that may throw
  returns \<open>exn + 'a\<close>, with \<open>Inl\<close> for the exception.
\<close>

datatype exn = ValidationException | BuilderException | InvalidArgument | RuntimeError

section \<open>InputValidator\<close>

subsection \<open>Character classes of the C locale\<close>

text \<open>
  \<^verbatim>\<open>std::isdigit\<close>, \<^verbatim>\<open>std::isalnum\<close> and \<^verbatim>\<open>std::isspace\<close> in the default "C" locale: only
  ASCII characters are classified; a byte of value 128 or more belongs to no class.
\<close>

definition isdigit :: "char \<Rightarrow> bool" where
  "isdigit c = (48 \<le> (of_char c :: nat) \<and> (of_char c :: nat) \<le> 57)"

definition isupper :: "char \<Rightarrow> bool" where
  "isupper c = (65 \<le> (of_char c :: nat) \<and> (of_char c :: nat) \<le> 90)"

definition islower :: "char \<Rightarrow> bool" where
  "islower c = (97 \<le> (of_char c :: nat) \<and> (of_char c :: nat) \<le> 122)"

definition isalnum :: "char \<Rightarrow> bool" where
  "isalnum c = (isdigit c \<or> isupper c \<or> islower c)"

definition isspace :: "char \<Rightarrow> bool" where
  "isspace c = ((of_char c :: nat) = 32 \<or> (9 \<le> (of_char c :: nat) \<and> (of_char c :: nat) \<le> 13))"

definition isxdigit :: "char \<Rightarrow> bool" where
  "isxdigit c = (isdigit c
      \<or> (65 \<le> (of_char c :: nat) \<and> (of_char c :: nat) \<le> 70)
      \<or> (97 \<le> (of_char c :: nat) \<and> (of_char c :: nat) \<le> 102))"

subsection \<open>Reading fields from a string stream\<close>

text \<open>
  The loop \<^verbatim>\<open>while (std::getline(ss, field, d)) { ... }\<close> over a \<^verbatim>\<open>std::stringstream\<close>.
  \<open>cur\<close> holds the characters extracted so far for the current field. A delimiter ends
  the field (also an empty one); at the end of the stream the field is delivered only
  if at least one character was extracted, otherwise the extraction fails and the loop
  ends. So \<^verbatim>\<open>"a."\<close> yields the single field \<^verbatim>\<open>"a"\<close> and \<^verbatim>\<open>"a..b"\<close> yields
  \<^verbatim>\<open>"a"\<close>, \<^verbatim>\<open>""\<close>, \<^verbatim>\<open>"b"\<close>.
\<close>

fun getline_loop :: "char \<Rightarrow> string \<Rightarrow> string \<Rightarrow> string list" where
  "getline_loop d cur [] = (if cur = [] then [] else [cur])"
| "getline_loop d cur (c # cs) =
     (if c = d then cur # getline_loop d [] cs else getline_loop d (cur @ [c]) cs)"

definition getlines :: "char \<Rightarrow> string \<Rightarrow> string list" where
  "getlines d s = getline_loop d [] s"

subsection \<open>std::stoi and std::stoll\<close>

text \<open>
  Both call \<^verbatim>\<open>strtol\<close>/\<^verbatim>\<open>strtoll\<close> in base 10: leading white space is skipped, one
  optional sign is read, then the longest run of decimal digits; whatever follows the
  digits is ignored. With no digit the call throws \<^verbatim>\<open>std::invalid_argument\<close>, with a
  value outside the result type \<^verbatim>\<open>std::out_of_range\<close>. Both callers catch
  \<^verbatim>\<open>std::exception\<close>, so the model returns \<open>None\<close> for either exception.
\<close>

definition digit_val :: "char \<Rightarrow> int" where
  "digit_val c = int (of_char c) - 48"

definition decimal_value :: "string \<Rightarrow> int" where
  "decimal_value ds = foldl (\<lambda>acc c. acc * 10 + digit_val c) 0 ds"

definition strtol_parse :: "string \<Rightarrow> int option" where
  "strtol_parse s =
     (let s1 = dropWhile isspace s;
          neg = (case s1 of [] \<Rightarrow> False | c # r \<Rightarrow> c = CHR ''-'');
          s2 = (case s1 of [] \<Rightarrow> [] | c # r \<Rightarrow> if c = CHR ''-'' \<or> c = CHR ''+'' then r else s1);
          ds = takeWhile isdigit s2
      in if ds = [] then None
         else Some (if neg then - decimal_value ds else decimal_value ds))"

definition stoi :: "string \<Rightarrow> int option" where
  "stoi s = (case strtol_parse s of
               None \<Rightarrow> None
             | Some v \<Rightarrow> if - 2147483648 \<le> v \<and> v \<le> 2147483647 then Some v else None)"

definition stoll :: "string \<Rightarrow> int option" where
  "stoll s = (case strtol_parse s of
                None \<Rightarrow> None
              | Some v \<Rightarrow> if - 9223372036854775808 \<le> v \<and> v \<le> 9223372036854775807
                          then Some v else None)"

subsection \<open>The private helpers\<close>

definition MAX_HOSTNAME_LENGTH :: nat where
  "MAX_HOSTNAME_LENGTH = 253"

definition MAX_DEVICE_PATH_LENGTH :: nat where
  "MAX_DEVICE_PATH_LENGTH = 256"

text \<open>The body of the loop over the octets in \<^verbatim>\<open>is_valid_ipv4\<close>.\<close>

definition valid_octet :: "string \<Rightarrow> bool" where
  "valid_octet oct =
     (if oct = [] then False
      else if length oct > 1 \<and> hd oct = CHR ''0'' then False
      else if \<not> list_all isdigit oct then False
      else (case stoll oct of
              None \<Rightarrow> False
            | Some v \<Rightarrow> \<not> (v < 0 \<or> v > 255)))"

definition is_valid_ipv4 :: "string \<Rightarrow> bool" where
  "is_valid_ipv4 address =
     (let octets = getlines CHR ''.'' address
      in if length octets \<noteq> 4 then False else list_all valid_octet octets)"

text \<open>
  \<^verbatim>\<open>is_valid_ipv6\<close> is \<^verbatim>\<open>std::regex_match\<close> against
  \<^verbatim>\<open>^([0-9a-fA-F]{1,4}:){7}[0-9a-fA-F]{1,4}$|^::1$|^::$\<close>. The whole string must match.
  No hexadecimal digit is a colon, so the first alternative matches exactly the strings
  that consist of eight colon-separated groups of one to four hexadecimal digits;
  \<open>split_fields\<close> cuts at every separator (n separators give n + 1 fields).
\<close>

fun split_fields :: "char \<Rightarrow> string \<Rightarrow> string \<Rightarrow> string list" where
  "split_fields d cur [] = [cur]"
| "split_fields d cur (c # cs) =
     (if c = d then cur # split_fields d [] cs else split_fields d (cur @ [c]) cs)"

definition hex_group :: "string \<Rightarrow> bool" where
  "hex_group g = (1 \<le> length g \<and> length g \<le> 4 \<and> list_all isxdigit g)"

definition is_valid_ipv6 :: "string \<Rightarrow> bool" where
  "is_valid_ipv6 address =
     ((let gs = split_fields CHR '':'' [] address
       in length gs = 8 \<and> list_all hex_group gs)
      \<or> address = ''::1'' \<or> address = ''::'')"

text \<open>The body of the loop over the labels in \<^verbatim>\<open>is_valid_hostname\<close>.\<close>

definition valid_label :: "string \<Rightarrow> bool" where
  "valid_label label =
     (if label = [] \<or> length label > 63 then False
      else list_all (\<lambda>c. \<not> (\<not> isalnum c \<and> c \<noteq> CHR ''-'')) label)"

definition is_valid_hostname :: "string \<Rightarrow> bool" where
  "is_valid_hostname hostname =
     (if hostname = [] \<or> length hostname > MAX_HOSTNAME_LENGTH then False
      else if hd hostname = CHR ''-'' \<or> last hostname = CHR ''-'' then False
      else list_all valid_label (getlines CHR ''.'' hostname))"

definition is_valid_device_path :: "string \<Rightarrow> bool" where
  "is_valid_device_path device =
     (if device = [] then False
      else if hd device = CHR ''/''
        then list_all (\<lambda>c. \<not> (\<not> isalnum c \<and> c \<noteq> CHR ''/'' \<and> c \<noteq> CHR ''_'' \<and> c \<noteq> CHR ''-'')) device
      else if length device \<ge> 4 \<and> take 3 device = ''COM''
        then (case stoi (drop 3 device) of
                None \<Rightarrow> False
              | Some port \<Rightarrow> port \<ge> 1 \<and> port \<le> 255)
      else if device = ''NUL'' \<or> device = ''CON'' \<or> device = ''PRN'' \<or> device = ''AUX''
              \<or> device = ''LPT1'' \<or> device = ''LPT2'' \<or> device = ''LPT3''
        then True
      else False)"

subsection \<open>The public validators\<close>

definition validate_non_empty_string :: "string \<Rightarrow> exn + unit" where
  "validate_non_empty_string str = (if str = [] then Inl ValidationException else Inr ())"

definition validate_string_length :: "string \<Rightarrow> nat \<Rightarrow> exn + unit" where
  "validate_string_length str max_length =
     (if length str > max_length then Inl ValidationException else Inr ())"

definition validate_port :: "16 word \<Rightarrow> exn + unit" where
  "validate_port port = (if port = 0 then Inl ValidationException else Inr ())"

definition validate_host :: "string \<Rightarrow> exn + unit" where
  "validate_host host =
     (case validate_non_empty_string host of
        Inl e \<Rightarrow> Inl e
      | Inr _ \<Rightarrow>
     (case validate_string_length host MAX_HOSTNAME_LENGTH of
        Inl e \<Rightarrow> Inl e
      | Inr _ \<Rightarrow>
        if is_valid_ipv4 host then Inr ()
        else if is_valid_ipv6 host then Inr ()
        else if is_valid_hostname host then Inr ()
        else Inl ValidationException))"

definition validate_device_path :: "string \<Rightarrow> exn + unit" where
  "validate_device_path device =
     (case validate_non_empty_string device of
        Inl e \<Rightarrow> Inl e
      | Inr _ \<Rightarrow>
     (case validate_string_length device MAX_DEVICE_PATH_LENGTH of
        Inl e \<Rightarrow> Inl e
      | Inr _ \<Rightarrow>
        if \<not> is_valid_device_path device then Inl ValidationException else Inr ()))"

section \<open>LinkState\<close>

datatype LinkState = Idle | Connecting | Listening | Connected | Closed | Error

section \<open>wrapper::TcpServer\<close>

subsection \<open>The collaborators of the wrapper\<close>

text \<open>
  A non-empty \<^verbatim>\<open>std::function\<close> is identified by a number; a handler field holds
  \<open>None\<close> while the \<^verbatim>\<open>std::function\<close> is empty.
\<close>

type_synonym handler = nat

text \<open>
  Modelled from the spec: \<^verbatim>\<open>interface::Channel\<close> and \<^verbatim>\<open>transport::TcpServer\<close> are only
  used by the wrapper, their classes are not part of the sources at hand. The record
  holds what the wrapper can read from the object behind \<^verbatim>\<open>channel_\<close>: the snapshot
  "LinkState == Connected" of \<^verbatim>\<open>is_connected()\<close>, whether the
  \<^verbatim>\<open>dynamic_pointer_cast\<close> to the transport server succeeds, and the transport server's
  answers to \<^verbatim>\<open>get_client_count()\<close> and \<^verbatim>\<open>get_connected_clients()\<close>.
\<close>

record channel =
  chan_is_connected :: bool
  chan_is_transport_server :: bool
  chan_client_count :: "64 word"
  chan_connected_clients :: "64 word list"

text \<open>
  What a call does to the world outside the object it is called on: calls into the
  channel, into the reactor, and invocations of user callbacks, in the order they
  happen. Debug logging is not recorded.
\<close>

datatype event =
    AsyncWriteCopy "8 word list"
  | ChannelStop
  | SleepForMs nat
  | TransportSetClientLimit "64 word"
  | TransportSetUnlimitedClients
  | TransportOnMultiConnect
  | TransportOnMultiData
  | TransportOnMultiDisconnect
  | CallOnConnect handler
  | CallOnDisconnect handler
  | CallOnError handler string
  | CreateIndependentContext
  | EnsureIoContextRunning
  | ConstructServer "16 word"

subsection \<open>The object\<close>

text \<open>The data member \<^verbatim>\<open>x_\<close> of the class is the field \<open>srv_x\<close> of the record.\<close>

record tcp_server =
  srv_channel :: "channel option"
  srv_port :: "16 word"
  srv_started :: bool
  srv_auto_start :: bool
  srv_auto_manage :: bool
  srv_port_retry_enabled :: bool
  srv_max_port_retries :: "32 word"
  srv_port_retry_interval_ms :: "32 word"
  srv_client_limit_enabled :: bool
  srv_max_clients :: "64 word"
  srv_is_listening :: bool
  srv_on_data :: "handler option"
  srv_on_connect :: "handler option"
  srv_on_disconnect :: "handler option"
  srv_on_error :: "handler option"
  srv_on_multi_connect :: "handler option"
  srv_on_multi_data :: "handler option"
  srv_on_multi_disconnect :: "handler option"

text \<open>\<^verbatim>\<open>TcpServer::TcpServer(uint16_t port)\<close>, with the member initialisers of the class.\<close>

definition TcpServer :: "16 word \<Rightarrow> tcp_server" where
  "TcpServer port =
     \<lparr> srv_channel = None, srv_port = port, srv_started = False, srv_auto_start = False,
       srv_auto_manage = False, srv_port_retry_enabled = False, srv_max_port_retries = 3,
       srv_port_retry_interval_ms = 1000, srv_client_limit_enabled = False, srv_max_clients = 0,
       srv_is_listening = False, srv_on_data = None, srv_on_connect = None, srv_on_disconnect = None,
       srv_on_error = None, srv_on_multi_connect = None, srv_on_multi_data = None,
       srv_on_multi_disconnect = None \<rparr>"

text \<open>The transport server behind \<^verbatim>\<open>channel_\<close>, when the channel exists and the cast succeeds.\<close>

definition transport_server :: "tcp_server \<Rightarrow> channel option" where
  "transport_server s =
     (case srv_channel s of
        None \<Rightarrow> None
      | Some ch \<Rightarrow> if chan_is_transport_server ch then Some ch else None)"

subsection \<open>Queries\<close>

definition is_connected :: "tcp_server \<Rightarrow> bool" where
  "is_connected s = (case srv_channel s of None \<Rightarrow> False | Some ch \<Rightarrow> chan_is_connected ch)"

definition is_listening :: "tcp_server \<Rightarrow> bool" where
  "is_listening s = srv_is_listening s"

definition get_client_count :: "tcp_server \<Rightarrow> 64 word" where
  "get_client_count s =
     (case transport_server s of Some ts \<Rightarrow> chan_client_count ts | None \<Rightarrow> 0)"

definition get_connected_clients :: "tcp_server \<Rightarrow> 64 word list" where
  "get_connected_clients s =
     (case transport_server s of Some ts \<Rightarrow> chan_connected_clients ts | None \<Rightarrow> [])"

subsection \<open>Sending\<close>

definition string_to_uint8 :: "string \<Rightarrow> 8 word list" where
  "string_to_uint8 str = map of_char str"

definition send :: "tcp_server \<Rightarrow> string \<Rightarrow> tcp_server \<times> event list" where
  "send s data =
     (if is_connected s \<and> srv_channel s \<noteq> None
      then (s, [AsyncWriteCopy (string_to_uint8 data)])
      else (s, []))"

definition send_line :: "tcp_server \<Rightarrow> string \<Rightarrow> tcp_server \<times> event list" where
  "send_line s line = send s (line @ [CHR 0x0A])"

subsection \<open>State notifications and stopping\<close>

definition handle_state :: "tcp_server \<Rightarrow> LinkState \<Rightarrow> tcp_server \<times> event list" where
  "handle_state s state =
     (let s1 = (if state = Listening then s\<lparr>srv_is_listening := True\<rparr>
                else if state = Error \<or> state = Closed then s\<lparr>srv_is_listening := False\<rparr>
                else s)
      in (s1,
          case state of
            Connected \<Rightarrow> (case srv_on_connect s1 of Some h \<Rightarrow> [CallOnConnect h] | None \<Rightarrow> [])
          | Closed \<Rightarrow> (case srv_on_disconnect s1 of Some h \<Rightarrow> [CallOnDisconnect h] | None \<Rightarrow> [])
          | Error \<Rightarrow> (case srv_on_error s1 of Some h \<Rightarrow> [CallOnError h ''Connection error''] | None \<Rightarrow> [])
          | _ \<Rightarrow> []))"

fun handle_states :: "tcp_server \<Rightarrow> LinkState list \<Rightarrow> tcp_server \<times> event list" where
  "handle_states s [] = (s, [])"
| "handle_states s (st # sts) =
     (let (s1, ev1) = handle_state s st; (s2, ev2) = handle_states s1 sts in (s2, ev1 @ ev2))"

text \<open>
  \<^verbatim>\<open>TcpServer::stop()\<close>. What the channel reports through the \<^verbatim>\<open>on_state\<close> handler
  between \<^verbatim>\<open>channel_->stop()\<close> and \<^verbatim>\<open>channel_.reset()\<close> is decided by the channel; the
  notifications are the argument \<open>notes\<close>, delivered through \<open>handle_state\<close>.
\<close>

definition stop :: "LinkState list \<Rightarrow> tcp_server \<Rightarrow> tcp_server \<times> event list" where
  "stop notes s =
     (if \<not> srv_started s \<or> srv_channel s = None then (s, [])
      else (let (s1, evs) = handle_states s notes
            in (s1\<lparr>srv_channel := None, srv_started := False\<rparr>,
                [ChannelStop] @ evs @ [SleepForMs 100])))"

subsection \<open>Configuration\<close>

definition on_data :: "tcp_server \<Rightarrow> handler option \<Rightarrow> tcp_server \<times> event list" where
  "on_data s h = (s\<lparr>srv_on_data := h\<rparr>, [])"

definition on_connect :: "tcp_server \<Rightarrow> handler option \<Rightarrow> tcp_server \<times> event list" where
  "on_connect s h = (s\<lparr>srv_on_connect := h\<rparr>, [])"

definition on_disconnect :: "tcp_server \<Rightarrow> handler option \<Rightarrow> tcp_server \<times> event list" where
  "on_disconnect s h = (s\<lparr>srv_on_disconnect := h\<rparr>, [])"

definition on_error :: "tcp_server \<Rightarrow> handler option \<Rightarrow> tcp_server \<times> event list" where
  "on_error s h = (s\<lparr>srv_on_error := h\<rparr>, [])"

definition auto_manage :: "tcp_server \<Rightarrow> bool \<Rightarrow> tcp_server \<times> event list" where
  "auto_manage s manage = (s\<lparr>srv_auto_manage := manage\<rparr>, [])"

definition on_multi_connect :: "tcp_server \<Rightarrow> handler option \<Rightarrow> tcp_server \<times> event list" where
  "on_multi_connect s h =
     (s\<lparr>srv_on_multi_connect := h\<rparr>,
      case transport_server s of Some _ \<Rightarrow> [TransportOnMultiConnect] | None \<Rightarrow> [])"

definition on_multi_data :: "tcp_server \<Rightarrow> handler option \<Rightarrow> tcp_server \<times> event list" where
  "on_multi_data s h =
     (s\<lparr>srv_on_multi_data := h\<rparr>,
      case transport_server s of Some _ \<Rightarrow> [TransportOnMultiData] | None \<Rightarrow> [])"

definition on_multi_disconnect :: "tcp_server \<Rightarrow> handler option \<Rightarrow> tcp_server \<times> event list" where
  "on_multi_disconnect s h =
     (s\<lparr>srv_on_multi_disconnect := h\<rparr>,
      case transport_server s of Some _ \<Rightarrow> [TransportOnMultiDisconnect] | None \<Rightarrow> [])"

definition enable_port_retry ::
  "tcp_server \<Rightarrow> bool \<Rightarrow> 32 word \<Rightarrow> 32 word \<Rightarrow> tcp_server \<times> event list" where
  "enable_port_retry s enable max_retries retry_interval_ms =
     (s\<lparr>srv_port_retry_enabled := enable, srv_max_port_retries := max_retries,
        srv_port_retry_interval_ms := retry_interval_ms\<rparr>, [])"

definition set_client_limit :: "tcp_server \<Rightarrow> 64 word \<Rightarrow> tcp_server \<times> event list" where
  "set_client_limit s max_clients =
     (s\<lparr>srv_max_clients := max_clients, srv_client_limit_enabled := True\<rparr>,
      case transport_server s of
        Some _ \<Rightarrow> [TransportSetClientLimit max_clients]
      | None \<Rightarrow> [])"

definition set_unlimited_clients :: "tcp_server \<Rightarrow> tcp_server \<times> event list" where
  "set_unlimited_clients s =
     (s\<lparr>srv_client_limit_enabled := False, srv_max_clients := 0\<rparr>,
      case transport_server s of
        Some _ \<Rightarrow> [TransportSetUnlimitedClients]
      | None \<Rightarrow> [])"

section \<open>TcpServerBuilder\<close>

text \<open>The data member \<^verbatim>\<open>x_\<close> of the builder is the field \<open>bld_x\<close> of the record.\<close>

record tcp_server_builder =
  bld_port :: "16 word"
  bld_auto_start :: bool
  bld_auto_manage :: bool
  bld_use_independent_context :: bool
  bld_enable_port_retry :: bool
  bld_max_port_retries :: "32 word"
  bld_port_retry_interval_ms :: "32 word"
  bld_max_clients :: "64 word"
  bld_client_limit_set :: bool
  bld_on_data :: "handler option"
  bld_on_connect :: "handler option"
  bld_on_disconnect :: "handler option"
  bld_on_error :: "handler option"
  bld_on_multi_connect :: "handler option"
  bld_on_multi_data :: "handler option"
  bld_on_multi_disconnect :: "handler option"

text \<open>
  Modelled from the spec: \<^verbatim>\<open>common::constants::DEFAULT_RETRY_INTERVAL_MS\<close> is declared in a
  header that is not part of the sources at hand; the reconnect delay is
  "configurable; default 2 000 ms".
\<close>

definition DEFAULT_RETRY_INTERVAL_MS :: "32 word" where
  "DEFAULT_RETRY_INTERVAL_MS = 2000"

definition SIZE_MAX :: "64 word" where
  "SIZE_MAX = - 1"

text \<open>
  The constructor: a \<^verbatim>\<open>ValidationException\<close> of \<^verbatim>\<open>validate_port\<close> is caught and
  rethrown as a \<^verbatim>\<open>BuilderException\<close>.
\<close>

definition TcpServerBuilder :: "16 word \<Rightarrow> exn + tcp_server_builder" where
  "TcpServerBuilder port =
     (case validate_port port of
        Inl ValidationException \<Rightarrow> Inl BuilderException
      | Inl e \<Rightarrow> Inl e
      | Inr _ \<Rightarrow>
          Inr \<lparr> bld_port = port, bld_auto_start = False, bld_auto_manage = False,
                bld_use_independent_context = False, bld_enable_port_retry = False,
                bld_max_port_retries = 3,
                bld_port_retry_interval_ms = DEFAULT_RETRY_INTERVAL_MS div 2,
                bld_max_clients = SIZE_MAX, bld_client_limit_set = False,
                bld_on_data = None, bld_on_connect = None, bld_on_disconnect = None,
                bld_on_error = None, bld_on_multi_connect = None, bld_on_multi_data = None,
                bld_on_multi_disconnect = None \<rparr>)"

subsection \<open>The client limit\<close>

definition max_clients :: "tcp_server_builder \<Rightarrow> 64 word \<Rightarrow> exn + tcp_server_builder" where
  "max_clients b n =
     (if n = 0 then Inl InvalidArgument
      else if n = 1 then Inl InvalidArgument
      else Inr (b\<lparr>bld_max_clients := n, bld_client_limit_set := True\<rparr>))"

definition single_client :: "tcp_server_builder \<Rightarrow> tcp_server_builder" where
  "single_client b = b\<lparr>bld_max_clients := 1, bld_client_limit_set := True\<rparr>"

definition multi_client :: "tcp_server_builder \<Rightarrow> 64 word \<Rightarrow> exn + tcp_server_builder" where
  "multi_client b n =
     (if n = 0 then Inl InvalidArgument
      else if n = 1 then Inl InvalidArgument
      else Inr (b\<lparr>bld_max_clients := n, bld_client_limit_set := True\<rparr>))"

definition unlimited_clients :: "tcp_server_builder \<Rightarrow> tcp_server_builder" where
  "unlimited_clients b = b\<lparr>bld_max_clients := 0, bld_client_limit_set := True\<rparr>"

subsection \<open>The other setters\<close>

definition builder_auto_start :: "tcp_server_builder \<Rightarrow> bool \<Rightarrow> tcp_server_builder" where
  "builder_auto_start b v = b\<lparr>bld_auto_start := v\<rparr>"

definition builder_auto_manage :: "tcp_server_builder \<Rightarrow> bool \<Rightarrow> tcp_server_builder" where
  "builder_auto_manage b v = b\<lparr>bld_auto_manage := v\<rparr>"

definition builder_on_data :: "tcp_server_builder \<Rightarrow> handler option \<Rightarrow> tcp_server_builder" where
  "builder_on_data b h = b\<lparr>bld_on_data := h\<rparr>"

definition builder_on_connect :: "tcp_server_builder \<Rightarrow> handler option \<Rightarrow> tcp_server_builder" where
  "builder_on_connect b h = b\<lparr>bld_on_connect := h\<rparr>"

definition builder_on_disconnect :: "tcp_server_builder \<Rightarrow> handler option \<Rightarrow> tcp_server_builder" where
  "builder_on_disconnect b h = b\<lparr>bld_on_disconnect := h\<rparr>"

definition builder_on_error :: "tcp_server_builder \<Rightarrow> handler option \<Rightarrow> tcp_server_builder" where
  "builder_on_error b h = b\<lparr>bld_on_error := h\<rparr>"

definition use_independent_context :: "tcp_server_builder \<Rightarrow> bool \<Rightarrow> tcp_server_builder" where
  "use_independent_context b v = b\<lparr>bld_use_independent_context := v\<rparr>"

text \<open>
  The overloads of \<^verbatim>\<open>on_data\<close>, \<^verbatim>\<open>on_connect\<close> and \<^verbatim>\<open>on_disconnect\<close> that take a handler
  with a client id store it where \<^verbatim>\<open>on_multi_data\<close>, \<^verbatim>\<open>on_multi_connect\<close> and
  \<^verbatim>\<open>on_multi_disconnect\<close> do.
\<close>

definition builder_on_multi_connect :: "tcp_server_builder \<Rightarrow> handler option \<Rightarrow> tcp_server_builder" where
  "builder_on_multi_connect b h = b\<lparr>bld_on_multi_connect := h\<rparr>"

definition builder_on_multi_data :: "tcp_server_builder \<Rightarrow> handler option \<Rightarrow> tcp_server_builder" where
  "builder_on_multi_data b h = b\<lparr>bld_on_multi_data := h\<rparr>"

definition builder_on_multi_disconnect :: "tcp_server_builder \<Rightarrow> handler option \<Rightarrow> tcp_server_builder" where
  "builder_on_multi_disconnect b h = b\<lparr>bld_on_multi_disconnect := h\<rparr>"

definition builder_enable_port_retry ::
  "tcp_server_builder \<Rightarrow> bool \<Rightarrow> 32 word \<Rightarrow> 32 word \<Rightarrow> tcp_server_builder" where
  "builder_enable_port_retry b enable max_retries retry_interval_ms =
     b\<lparr>bld_enable_port_retry := enable, bld_max_port_retries := max_retries,
       bld_port_retry_interval_ms := retry_interval_ms\<rparr>"

subsection \<open>build\<close>

text \<open>One statement of \<^verbatim>\<open>build()\<close> after another on the server under construction.\<close>

definition then_do ::
  "tcp_server \<times> event list \<Rightarrow> (tcp_server \<Rightarrow> tcp_server \<times> event list) \<Rightarrow> tcp_server \<times> event list" where
  "then_do p f = (case f (fst p) of (s, evs) \<Rightarrow> (s, snd p @ evs))"

definition skip :: "tcp_server \<Rightarrow> tcp_server \<times> event list" where
  "skip s = (s, [])"

text \<open>
  \<^verbatim>\<open>TcpServerBuilder::build()\<close>. The body of \<^verbatim>\<open>wrapper::TcpServer::auto_start(bool)\<close> is
  not part of the sources at hand (the class only declares it), so what it does to the
  server is the argument \<open>auto_start\<close>. The result pairs the events of the call with the
  exception or the server.
\<close>

definition build ::
  "(tcp_server \<Rightarrow> bool \<Rightarrow> tcp_server \<times> event list) \<Rightarrow> tcp_server_builder
     \<Rightarrow> event list \<times> (exn + tcp_server)" where
  "build auto_start b =
     (if \<not> bld_client_limit_set b then ([], Inl RuntimeError)
      else
       (let context = (if bld_use_independent_context b then [CreateIndependentContext]
                       else [EnsureIoContextRunning]);
            server = (TcpServer (bld_port b), context @ [ConstructServer (bld_port b)]);
            server = then_do server (\<lambda>s.
              if bld_client_limit_set b
              then (if bld_max_clients b = 0 then set_unlimited_clients s
                    else set_client_limit s (bld_max_clients b))
              else skip s);
            server = then_do server (\<lambda>s. if bld_auto_start b then auto_start s True else skip s);
            server = then_do server (\<lambda>s. if bld_auto_manage b then auto_manage s True else skip s);
            server = then_do server (\<lambda>s.
              if bld_on_data b \<noteq> None then on_data s (bld_on_data b) else skip s);
            server = then_do server (\<lambda>s.
              if bld_on_connect b \<noteq> None then on_connect s (bld_on_connect b) else skip s);
            server = then_do server (\<lambda>s.
              if bld_on_disconnect b \<noteq> None then on_disconnect s (bld_on_disconnect b) else skip s);
            server = then_do server (\<lambda>s.
              if bld_on_error b \<noteq> None then on_error s (bld_on_error b) else skip s);
            server = then_do server (\<lambda>s.
              if bld_on_multi_connect b \<noteq> None then on_multi_connect s (bld_on_multi_connect b)
              else skip s);
            server = then_do server (\<lambda>s.
              if bld_on_multi_data b \<noteq> None then on_multi_data s (bld_on_multi_data b)
              else skip s);
            server = then_do server (\<lambda>s.
              if bld_on_multi_disconnect b \<noteq> None
              then on_multi_disconnect s (bld_on_multi_disconnect b)
              else skip s);
            server = then_do server (\<lambda>s.
              if bld_enable_port_retry b
              then enable_port_retry s True (bld_max_port_retries b) (bld_port_retry_interval_ms b)
              else skip s)
        in (snd server, Inr (fst server))))"

text \<open>
  Modelled from the spec: an \<^verbatim>\<open>auto_start\<close> for \<open>build\<close> to run on concrete inputs. The
  spec lists \<^verbatim>\<open>auto_start: bool\<close> beside \<^verbatim>\<open>auto_manage: bool\<close> as "lifecycle automation";
  like \<open>auto_manage\<close>, this one stores the flag.
\<close>

definition auto_start_stored :: "tcp_server \<Rightarrow> bool \<Rightarrow> tcp_server \<times> event list" where
  "auto_start_stored s start = (s\<lparr>srv_auto_start := start\<rparr>, [])"

text \<open>An \<^verbatim>\<open>auto_start\<close> that leaves the client limit of the server as it is.\<close>

definition keeps_client_limit :: "(tcp_server \<Rightarrow> bool \<Rightarrow> tcp_server \<times> event list) \<Rightarrow> bool" where
  "keeps_client_limit auto_start =
     (\<forall>s start. srv_max_clients (fst (auto_start s start)) = srv_max_clients s
        \<and> srv_client_limit_enabled (fst (auto_start s start)) = srv_client_limit_enabled s)"

text \<open>A step of \<open>build\<close> that leaves the client limit of the server as it is.\<close>

definition keeps_limit :: "(tcp_server \<Rightarrow> tcp_server \<times> event list) \<Rightarrow> bool" where
  "keeps_limit f =
     (\<forall>s. srv_max_clients (fst (f s)) = srv_max_clients s
        \<and> srv_client_limit_enabled (fst (f s)) = srv_client_limit_enabled s)"

subsection \<open>A builder at work: constructor, calls, build\<close>

datatype builder_call =
    Call_auto_start bool
  | Call_auto_manage bool
  | Call_on_data "handler option"
  | Call_on_data_with_id "handler option"
  | Call_on_connect "handler option"
  | Call_on_connect_with_id "handler option"
  | Call_on_disconnect "handler option"
  | Call_on_disconnect_with_id "handler option"
  | Call_on_error "handler option"
  | Call_use_independent_context bool
  | Call_on_multi_connect "handler option"
  | Call_on_multi_data "handler option"
  | Call_on_multi_disconnect "handler option"
  | Call_enable_port_retry bool "32 word" "32 word"
  | Call_max_clients "64 word"
  | Call_single_client
  | Call_multi_client "64 word"
  | Call_unlimited_clients

fun call :: "tcp_server_builder \<Rightarrow> builder_call \<Rightarrow> exn + tcp_server_builder" where
  "call b (Call_auto_start v) = Inr (builder_auto_start b v)"
| "call b (Call_auto_manage v) = Inr (builder_auto_manage b v)"
| "call b (Call_on_data h) = Inr (builder_on_data b h)"
| "call b (Call_on_data_with_id h) = Inr (builder_on_multi_data b h)"
| "call b (Call_on_connect h) = Inr (builder_on_connect b h)"
| "call b (Call_on_connect_with_id h) = Inr (builder_on_multi_connect b h)"
| "call b (Call_on_disconnect h) = Inr (builder_on_disconnect b h)"
| "call b (Call_on_disconnect_with_id h) = Inr (builder_on_multi_disconnect b h)"
| "call b (Call_on_error h) = Inr (builder_on_error b h)"
| "call b (Call_use_independent_context v) = Inr (use_independent_context b v)"
| "call b (Call_on_multi_connect h) = Inr (builder_on_multi_connect b h)"
| "call b (Call_on_multi_data h) = Inr (builder_on_multi_data b h)"
| "call b (Call_on_multi_disconnect h) = Inr (builder_on_multi_disconnect b h)"
| "call b (Call_enable_port_retry e m i) = Inr (builder_enable_port_retry b e m i)"
| "call b (Call_max_clients n) = max_clients b n"
| "call b Call_single_client = Inr (single_client b)"
| "call b (Call_multi_client n) = multi_client b n"
| "call b Call_unlimited_clients = Inr (unlimited_clients b)"

text \<open>A chain of calls on one builder; an exception ends the chain.\<close>

fun calls :: "tcp_server_builder \<Rightarrow> builder_call list \<Rightarrow> exn + tcp_server_builder" where
  "calls b [] = Inr b"
| "calls b (c # cs) = (case call b c of Inl e \<Rightarrow> Inl e | Inr b1 \<Rightarrow> calls b1 cs)"

text \<open>\<^verbatim>\<open>unilink::tcp_server(port). ... .build()\<close>\<close>

definition build_chain ::
  "(tcp_server \<Rightarrow> bool \<Rightarrow> tcp_server \<times> event list) \<Rightarrow> 16 word \<Rightarrow> builder_call list
     \<Rightarrow> event list \<times> (exn + tcp_server)" where
  "build_chain auto_start port cs =
     (case TcpServerBuilder port of
        Inl e \<Rightarrow> ([], Inl e)
      | Inr b0 \<Rightarrow> (case calls b0 cs of
                    Inl e \<Rightarrow> ([], Inl e)
                  | Inr b \<Rightarrow> build auto_start b))"

text \<open>
  A call whose exception the caller catches. \<open>max_clients\<close> and \<open>multi_client\<close> throw
  before they assign anything, so the builder is then as it was and can be used
  further.
\<close>

definition call_caught :: "tcp_server_builder \<Rightarrow> builder_call \<Rightarrow> tcp_server_builder" where
  "call_caught b c = (case call b c of Inl e \<Rightarrow> b | Inr b1 \<Rightarrow> b1)"

text \<open>
  Any sequence of calls on one builder, each of them returning or throwing an exception
  that is caught.
\<close>

fun calls_caught :: "tcp_server_builder \<Rightarrow> builder_call list \<Rightarrow> tcp_server_builder" where
  "calls_caught b [] = b"
| "calls_caught b (c # cs) = calls_caught (call_caught b c) cs"

text \<open>
  The limit that a call sets when it returns; \<open>None\<close> for a call that sets no limit
  and for \<open>max_clients\<close> and \<open>multi_client\<close> with 0 or 1, which throw.
\<close>

fun limit_set_by :: "builder_call \<Rightarrow> 64 word option" where
  "limit_set_by (Call_max_clients n) = (if n = 0 \<or> n = 1 then None else Some n)"
| "limit_set_by Call_single_client = Some 1"
| "limit_set_by (Call_multi_client n) = (if n = 0 \<or> n = 1 then None else Some n)"
| "limit_set_by Call_unlimited_clients = Some 0"
| "limit_set_by _ = None"

text \<open>
  The limit set by the last call of a sequence that returned with a limit (0 stands for
  "unlimited").
\<close>

fun last_limit :: "builder_call list \<Rightarrow> 64 word option" where
  "last_limit [] = None"
| "last_limit (c # cs) =
     (case last_limit cs of Some l \<Rightarrow> Some l | None \<Rightarrow> limit_set_by c)"

text \<open>The three calls that the message of the exception of \<^verbatim>\<open>build()\<close> names.\<close>

fun named_in_message :: "builder_call \<Rightarrow> bool" where
  "named_in_message Call_single_client = True"
| "named_in_message (Call_multi_client n) = True"
| "named_in_message Call_unlimited_clients = True"
| "named_in_message _ = False"

section \<open>ErrorHandler\<close>

subsection \<open>The data of the handler\<close>

text \<open>
  Modelled from the spec: the header that declares \<^verbatim>\<open>ErrorLevel\<close>, \<^verbatim>\<open>ErrorCategory\<close>,
  \<^verbatim>\<open>ErrorInfo\<close>, \<^verbatim>\<open>ErrorStats\<close>, \<^verbatim>\<open>MAX_RECENT_ERRORS\<close> and the data members of
  \<^verbatim>\<open>ErrorHandler\<close> is not part of the sources at hand. The levels are "Info, Warning,
  Error, Critical" and the categories "Connection, Communication, Configuration, Memory,
  System, Unknown", in this order; an \<^verbatim>\<open>ErrorInfo\<close> is "level, category, component,
  operation, message, optional system error code, retryable flag, timestamp"; the
  global ring holds at most 1 000 entries. The fields of \<^verbatim>\<open>ErrorStats\<close> and the data
  members of the handler are the ones the member functions use. Counters are natural
  numbers and a time point is the number of ticks since the epoch.
\<close>

datatype ErrorLevel = INFO | WARNING | ERROR | CRITICAL

datatype ErrorCategory = CONNECTION | COMMUNICATION | CONFIGURATION | MEMORY | SYSTEM | UNKNOWN

text \<open>\<^verbatim>\<open>static_cast<int>(level)\<close>; the comparison of two levels compares these values.\<close>

fun level_value :: "ErrorLevel \<Rightarrow> nat" where
  "level_value INFO = 0"
| "level_value WARNING = 1"
| "level_value ERROR = 2"
| "level_value CRITICAL = 3"

record ErrorInfo =
  level :: ErrorLevel
  category :: ErrorCategory
  component :: string
  operation :: string
  message :: string
  error_code :: "int option"
  retryable :: bool
  timestamp :: int

record ErrorStats =
  total_errors :: nat
  errors_by_level :: "ErrorLevel \<Rightarrow> nat"
  errors_by_category :: "ErrorCategory \<Rightarrow> nat"
  retryable_errors :: nat
  first_error :: int
  last_error :: int

text \<open>A registered \<^verbatim>\<open>ErrorCallback\<close> is identified by a number, like a handler.\<close>

record error_handler =
  eh_enabled :: bool
  eh_min_level :: ErrorLevel
  eh_stats :: ErrorStats
  eh_recent_errors :: "ErrorInfo list"
  eh_errors_by_component :: "string \<rightharpoonup> ErrorInfo list"
  eh_callbacks :: "handler list"

definition MAX_RECENT_ERRORS :: nat where
  "MAX_RECENT_ERRORS = 1000"

definition MAX_COMPONENT_ERRORS :: nat where
  "MAX_COMPONENT_ERRORS = 100"

text \<open>The invocation of one registered callback with one error.\<close>

datatype callback_call = CallErrorCallback handler ErrorInfo

subsection \<open>Recording\<close>

definition update_stats :: "ErrorStats \<Rightarrow> ErrorInfo \<Rightarrow> ErrorStats" where
  "update_stats st error =
     (let st = st\<lparr>total_errors := total_errors st + 1\<rparr>;
          st = st\<lparr>errors_by_level :=
                 (errors_by_level st)(level error := errors_by_level st (level error) + 1)\<rparr>;
          st = st\<lparr>errors_by_category :=
                 (errors_by_category st)(category error := errors_by_category st (category error) + 1)\<rparr>;
          st = (if retryable error then st\<lparr>retryable_errors := retryable_errors st + 1\<rparr> else st);
          st = (if first_error st = 0 then st\<lparr>first_error := timestamp error\<rparr> else st)
      in st\<lparr>last_error := timestamp error\<rparr>)"

text \<open>
  \<^verbatim>\<open>v.erase(v.begin(), v.begin() + (v.size() - limit))\<close> under the guard
  \<^verbatim>\<open>v.size() > limit\<close>: the oldest entries go.
\<close>

definition erase_oldest :: "nat \<Rightarrow> 'a list \<Rightarrow> 'a list" where
  "erase_oldest limit v = (if length v > limit then drop (length v - limit) v else v)"

definition add_to_recent_errors :: "ErrorInfo list \<Rightarrow> ErrorInfo \<Rightarrow> ErrorInfo list" where
  "add_to_recent_errors recent error = erase_oldest MAX_RECENT_ERRORS (recent @ [error])"

text \<open>
  \<^verbatim>\<open>errors_by_component_[error.component]\<close> inserts an empty vector for a component that
  has no entry yet.
\<close>

definition add_to_component_errors ::
  "(string \<rightharpoonup> ErrorInfo list) \<Rightarrow> ErrorInfo \<Rightarrow> (string \<rightharpoonup> ErrorInfo list)" where
  "add_to_component_errors m error =
     (let component_errors = (case m (component error) of None \<Rightarrow> [] | Some v \<Rightarrow> v) @ [error]
      in m(component error \<mapsto> erase_oldest MAX_COMPONENT_ERRORS component_errors))"

text \<open>An exception of a callback is caught and written to the standard error stream.\<close>

definition notify_callbacks :: "handler list \<Rightarrow> ErrorInfo \<Rightarrow> callback_call list" where
  "notify_callbacks callbacks error = map (\<lambda>callback. CallErrorCallback callback error) callbacks"

definition report_error :: "error_handler \<Rightarrow> ErrorInfo \<Rightarrow> error_handler \<times> callback_call list" where
  "report_error h error =
     (if \<not> eh_enabled h then (h, [])
      else if level_value (level error) < level_value (eh_min_level h) then (h, [])
      else (h\<lparr>eh_stats := update_stats (eh_stats h) error,
              eh_recent_errors := add_to_recent_errors (eh_recent_errors h) error,
              eh_errors_by_component := add_to_component_errors (eh_errors_by_component h) error\<rparr>,
            notify_callbacks (eh_callbacks h) error))"

subsection \<open>Administration and queries\<close>

definition register_callback :: "error_handler \<Rightarrow> handler \<Rightarrow> error_handler" where
  "register_callback h callback = h\<lparr>eh_callbacks := eh_callbacks h @ [callback]\<rparr>"

definition clear_callbacks :: "error_handler \<Rightarrow> error_handler" where
  "clear_callbacks h = h\<lparr>eh_callbacks := []\<rparr>"

definition set_min_error_level :: "error_handler \<Rightarrow> ErrorLevel \<Rightarrow> error_handler" where
  "set_min_error_level h l = h\<lparr>eh_min_level := l\<rparr>"

definition set_enabled :: "error_handler \<Rightarrow> bool \<Rightarrow> error_handler" where
  "set_enabled h enabled = h\<lparr>eh_enabled := enabled\<rparr>"

definition get_errors_by_component :: "error_handler \<Rightarrow> string \<Rightarrow> ErrorInfo list" where
  "get_errors_by_component h c =
     (case eh_errors_by_component h c of Some v \<Rightarrow> v | None \<Rightarrow> [])"

definition get_recent_errors :: "error_handler \<Rightarrow> nat \<Rightarrow> ErrorInfo list" where
  "get_recent_errors h count =
     (let start_index = (if length (eh_recent_errors h) > count
                         then length (eh_recent_errors h) - count else 0)
      in drop start_index (eh_recent_errors h))"

subsection \<open>A sequence of reports\<close>

text \<open>One \<^verbatim>\<open>report_error\<close> call after another on the same handler.\<close>

fun report_errors :: "error_handler \<Rightarrow> ErrorInfo list \<Rightarrow> error_handler \<times> callback_call list" where
  "report_errors h [] = (h, [])"
| "report_errors h (e # es) =
     (let (h1, calls1) = report_error h e; (h2, calls2) = report_errors h1 es
      in (h2, calls1 @ calls2))"

text \<open>Whether the handler records the error: it is enabled and the level is high enough.\<close>

definition recorded :: "error_handler \<Rightarrow> ErrorInfo \<Rightarrow> bool" where
  "recorded h e = (eh_enabled h \<and> \<not> level_value (level e) < level_value (eh_min_level h))"

text \<open>The last \<open>n\<close> entries of a list, in their order.\<close>

definition most_recent :: "nat \<Rightarrow> 'a list \<Rightarrow> 'a list" where
  "most_recent n xs = drop (length xs - n) xs"

section \<open>Properties of the validators\<close>

text \<open>
  What \<open>validate_host\<close> decides for a host that is neither an IPv4 nor an IPv6 address:
  it accepts exactly the non-empty names of at most 253 characters that have no hyphen
  at either end of the whole name and whose labels, as the loop reads them, have 1 to
  63 characters, all of them alphanumeric or hyphens.
\<close>

lemma valid_label_iff:
  "valid_label l =
     (1 \<le> length l \<and> length l \<le> 63 \<and> (\<forall>c \<in> set l. isalnum c \<or> c = CHR ''-''))"
  by (cases l) (auto simp: valid_label_def list_all_iff)

lemma validate_host_hostname_rules:
  assumes "\<not> is_valid_ipv4 s" and "\<not> is_valid_ipv6 s"
  shows "(validate_host s = Inr ()) =
     (s \<noteq> [] \<and> length s \<le> 253 \<and> hd s \<noteq> CHR ''-'' \<and> last s \<noteq> CHR ''-''
      \<and> (\<forall>l \<in> set (getlines CHR ''.'' s).
            1 \<le> length l \<and> length l \<le> 63 \<and> (\<forall>c \<in> set l. isalnum c \<or> c = CHR ''-'')))"
proof -
  have "(validate_host s = Inr ()) = is_valid_hostname s"
    using assms
    by (auto simp: validate_host_def validate_non_empty_string_def validate_string_length_def
          is_valid_hostname_def)
  also have "\<dots> = (s \<noteq> [] \<and> length s \<le> 253 \<and> hd s \<noteq> CHR ''-'' \<and> last s \<noteq> CHR ''-''
      \<and> (\<forall>l \<in> set (getlines CHR ''.'' s). valid_label l))"
    by (auto simp: is_valid_hostname_def MAX_HOSTNAME_LENGTH_def list_all_iff)
  finally show ?thesis
    by (simp add: valid_label_iff)
qed

text \<open>
  Claim C1. A host that \<open>validate_host\<close> accepts as a hostname is to have no label that
  starts or ends with a hyphen. The code looks at the first and the last character of
  the whole name only: \<^verbatim>\<open>"a.-b"\<close> is neither an IPv4 nor an IPv6 address, its labels
  are \<^verbatim>\<open>"a"\<close> and \<^verbatim>\<open>"-b"\<close>, and \<open>validate_host\<close> returns without an exception.
\<close>

theorem validate_host_accepts_hyphen_led_label:
  "validate_host ''a.-b'' = Inr ()
   \<and> \<not> is_valid_ipv4 ''a.-b'' \<and> \<not> is_valid_ipv6 ''a.-b''
   \<and> getlines CHR ''.'' ''a.-b'' = [''a'', ''-b'']"
  by code_simp

text \<open>The same for a label that ends with a hyphen, and for a name that ends with a dot.\<close>

lemma validate_host_more_accepted:
  "validate_host ''a-.b'' = Inr () \<and> getlines CHR ''.'' ''a-.b'' = [''a-'', ''b'']
   \<and> validate_host ''a.'' = Inr () \<and> getlines CHR ''.'' ''a.'' = [''a'']"
  by code_simp

text \<open>
  Claim C2. \<open>validate_device_path\<close> is to accept, besides the paths that begin with a
  slash and the reserved names, only \<^verbatim>\<open>"COM"\<close> followed by a port number from 1 to 255.
  The number is read by \<^verbatim>\<open>std::stoi\<close>, which stops at the first character that is not a
  digit and ignores the rest: \<^verbatim>\<open>"COM1x"\<close> is accepted.
\<close>

theorem validate_device_path_accepts_trailing_characters:
  "validate_device_path ''COM1x'' = Inr () \<and> stoi ''1x'' = Some 1"
  by code_simp

text \<open>More of the same kind: white space, a sign or zeros before the number.\<close>

lemma validate_device_path_more_accepted:
  "validate_device_path ''COM 7'' = Inr () \<and> validate_device_path ''COM+7'' = Inr ()
   \<and> validate_device_path ''COM007'' = Inr () \<and> validate_device_path ''COM1/../etc'' = Inr ()"
  by code_simp

text \<open>The bounds of the port number and the list of reserved names, on examples.\<close>

lemma validate_device_path_examples:
  "validate_device_path ''COM1'' = Inr () \<and> validate_device_path ''COM255'' = Inr ()
   \<and> validate_device_path ''COM0'' = Inl ValidationException
   \<and> validate_device_path ''COM256'' = Inl ValidationException
   \<and> validate_device_path ''COM'' = Inl ValidationException
   \<and> validate_device_path ''LPT3'' = Inr ()
   \<and> validate_device_path ''LPT4'' = Inl ValidationException
   \<and> validate_device_path ''/dev/ttyUSB0'' = Inr ()
   \<and> validate_device_path ''/dev/tty.usb'' = Inl ValidationException
   \<and> validate_device_path [] = Inl ValidationException"
  by code_simp

text \<open>A string of more than 256 characters is rejected, whatever it holds.\<close>

lemma validate_device_path_too_long:
  "length d > 256 \<Longrightarrow> validate_device_path d = Inl ValidationException"
  by (auto simp: validate_device_path_def validate_non_empty_string_def
        validate_string_length_def MAX_DEVICE_PATH_LENGTH_def)

text \<open>
  Apart from the strings of four or more characters that begin with \<^verbatim>\<open>"COM"\<close>,
  \<open>validate_device_path\<close> accepts exactly the paths that begin with a slash and hold
  only alphanumerics, slashes, underscores and hyphens, and the reserved names, each of
  at most 256 characters.
\<close>

lemma validate_device_path_unix_or_reserved:
  assumes "\<not> (length d \<ge> 4 \<and> take 3 d = ''COM'')"
  shows "(validate_device_path d = Inr ()) =
     (length d \<le> 256
      \<and> ((d \<noteq> [] \<and> hd d = CHR ''/''
           \<and> (\<forall>c \<in> set d. isalnum c \<or> c = CHR ''/'' \<or> c = CHR ''_'' \<or> c = CHR ''-''))
         \<or> d \<in> {''NUL'', ''CON'', ''PRN'', ''AUX'', ''LPT1'', ''LPT2'', ''LPT3''}))"
proof -
  have v: "(validate_device_path d = Inr ()) =
      (d \<noteq> [] \<and> length d \<le> 256 \<and> is_valid_device_path d)"
    by (auto simp: validate_device_path_def validate_non_empty_string_def
          validate_string_length_def MAX_DEVICE_PATH_LENGTH_def)
  have i: "is_valid_device_path d =
     ((d \<noteq> [] \<and> hd d = CHR ''/''
           \<and> (\<forall>c \<in> set d. isalnum c \<or> c = CHR ''/'' \<or> c = CHR ''_'' \<or> c = CHR ''-''))
         \<or> d \<in> {''NUL'', ''CON'', ''PRN'', ''AUX'', ''LPT1'', ''LPT2'', ''LPT3''})"
    using assms unfolding is_valid_device_path_def list_all_iff
    by (cases "d = []"; cases "hd d = CHR ''/''") auto
  show ?thesis
    unfolding v i by auto
qed

text \<open>
  \<^verbatim>\<open>"COM"\<close> followed by decimal digits and nothing else is accepted exactly when the
  digits denote a number from 1 to 255.
\<close>

lemma isdigit_not_space_sign:
  "isdigit c \<Longrightarrow> \<not> isspace c \<and> c \<noteq> CHR ''-'' \<and> c \<noteq> CHR ''+''"
  by (auto simp: isdigit_def isspace_def)

lemma strtol_parse_digits:
  assumes "ds \<noteq> []" and "list_all isdigit ds"
  shows "strtol_parse (ds @ rest) = Some (decimal_value (ds @ takeWhile isdigit rest))"
proof -
  obtain c r where ds: "ds = c # r"
    using assms(1) by (cases ds) auto
  with assms(2) have c: "isdigit c" and r: "list_all isdigit r"
    by simp_all
  from r have tw: "takeWhile isdigit (r @ rest) = r @ takeWhile isdigit rest"
    by (simp add: list_all_iff takeWhile_append2)
  show ?thesis
    using isdigit_not_space_sign [OF c] c tw
    by (simp add: strtol_parse_def ds Let_def)
qed

lemma is_valid_device_path_COM_digits:
  assumes "ds \<noteq> []" and "list_all isdigit ds"
  shows "is_valid_device_path (''COM'' @ ds) = (1 \<le> decimal_value ds \<and> decimal_value ds \<le> 255)"
proof -
  from strtol_parse_digits [OF assms, of "[]"] have p: "strtol_parse ds = Some (decimal_value ds)"
    by simp
  have l: "4 \<le> length (''COM'' @ ds)"
    using assms(1) by (cases ds) auto
  show ?thesis
    using l by (auto simp: is_valid_device_path_def stoi_def p)
qed

section \<open>Properties of the wrapper\<close>

text \<open>
  Claim C4. On a server whose \<open>is_connected\<close> is false, \<open>send\<close> returns the server as it
  was and no event: nothing is written to the channel, no callback runs, no exception
  leaves the call.
\<close>

theorem send_when_not_connected:
  "\<not> is_connected s \<Longrightarrow> send s data = (s, [])"
  by (simp add: send_def)

theorem send_when_not_connected_witness:
  "\<not> is_connected ((TcpServer 8080)\<lparr>srv_channel := Some \<lparr>chan_is_connected = False,
        chan_is_transport_server = True, chan_client_count = 0, chan_connected_clients = []\<rparr>,
        srv_started := True\<rparr>)
   \<and> send ((TcpServer 8080)\<lparr>srv_channel := Some \<lparr>chan_is_connected = False,
        chan_is_transport_server = True, chan_client_count = 0, chan_connected_clients = []\<rparr>,
        srv_started := True\<rparr>) ''hello''
     = ((TcpServer 8080)\<lparr>srv_channel := Some \<lparr>chan_is_connected = False,
        chan_is_transport_server = True, chan_client_count = 0, chan_connected_clients = []\<rparr>,
        srv_started := True\<rparr>, [])"
proof -
  let ?s = "(TcpServer 8080)\<lparr>srv_channel := Some \<lparr>chan_is_connected = False,
        chan_is_transport_server = True, chan_client_count = 0, chan_connected_clients = []\<rparr>,
        srv_started := True\<rparr>"
  have n: "\<not> is_connected ?s"
    by (simp add: is_connected_def)
  from n send_when_not_connected [OF n, of "''hello''"] show ?thesis
    by simp
qed

text \<open>
  Claim C7. \<open>send_line\<close> with a line is \<open>send\<close> with the line followed by one newline
  character, on every server and for every line; a connected server writes the bytes of
  the line and then the byte 10 to its channel, any other server writes nothing.
\<close>

theorem send_line_is_send_with_newline:
  "send_line s line = send s (line @ [CHR 0x0A])
   \<and> send_line s line =
       (s, if is_connected s then [AsyncWriteCopy (string_to_uint8 line @ [0x0A])] else [])"
  by (auto simp: send_line_def send_def string_to_uint8_def is_connected_def split: option.splits)

theorem send_line_is_send_with_newline_witness:
  "send_line ((TcpServer 8080)\<lparr>srv_channel := Some \<lparr>chan_is_connected = True,
        chan_is_transport_server = True, chan_client_count = 1, chan_connected_clients = [0]\<rparr>,
        srv_started := True\<rparr>) ''ok''
     = ((TcpServer 8080)\<lparr>srv_channel := Some \<lparr>chan_is_connected = True,
        chan_is_transport_server = True, chan_client_count = 1, chan_connected_clients = [0]\<rparr>,
        srv_started := True\<rparr>, [AsyncWriteCopy [111, 107, 10]])"
proof -
  let ?s = "(TcpServer 8080)\<lparr>srv_channel := Some \<lparr>chan_is_connected = True,
        chan_is_transport_server = True, chan_client_count = 1, chan_connected_clients = [0]\<rparr>,
        srv_started := True\<rparr>"
  have c: "is_connected ?s"
    by (simp add: is_connected_def)
  have b: "string_to_uint8 ''ok'' @ [0x0A] = [111, 107, 10]"
    by (simp add: string_to_uint8_def)
  from send_line_is_send_with_newline [of ?s "''ok''"]
  have "send_line ?s ''ok'' =
      (?s, if is_connected ?s then [AsyncWriteCopy (string_to_uint8 ''ok'' @ [0x0A])] else [])"
    by (rule conjunct2)
  then show ?thesis
    unfolding b using c by simp
qed

text \<open>
  Claim C8. \<open>stop\<close> on a server that was never started (the flag \<open>srv_started\<close> is false,
  or there is no channel) returns the server as it was and no event, whatever the
  channel would have reported: no callback is delivered.
\<close>

theorem stop_when_never_started:
  "\<not> srv_started s \<or> srv_channel s = None \<Longrightarrow> stop notes s = (s, [])"
  by (auto simp: stop_def)

theorem stop_when_never_started_witness:
  "\<not> srv_started (TcpServer 8080)
   \<and> stop [Closed, Error] (TcpServer 8080) = (TcpServer 8080, [])"
proof -
  have n: "\<not> srv_started (TcpServer 8080)"
    by (simp add: TcpServer_def)
  then have "\<not> srv_started (TcpServer 8080) \<or> srv_channel (TcpServer 8080) = None"
    by (rule disjI1)
  from n stop_when_never_started [OF this, of "[Closed, Error]"] show ?thesis
    by (rule conjI)
qed

text \<open>
  Claim C10. While the server has no channel, as after its construction from a port,
  \<open>get_client_count\<close> is 0, \<open>get_connected_clients\<close> is the empty vector and
  \<open>is_connected\<close> is false.
\<close>

theorem queries_without_channel:
  "srv_channel (TcpServer port) = None
   \<and> (srv_channel s = None \<longrightarrow>
        get_client_count s = 0 \<and> get_connected_clients s = [] \<and> \<not> is_connected s)"
  by (simp add: TcpServer_def get_client_count_def get_connected_clients_def is_connected_def
        transport_server_def)

theorem queries_without_channel_witness:
  "srv_channel (TcpServer 8080) = None
   \<and> get_client_count (TcpServer 8080) = 0
   \<and> get_connected_clients (TcpServer 8080) = []
   \<and> \<not> is_connected (TcpServer 8080)"
  using queries_without_channel [of 8080 "TcpServer 8080"]
  by simp

section \<open>Properties of the builder\<close>

lemma two_le_size_t: "(2::64 word) \<le> n \<Longrightarrow> n \<noteq> 0 \<and> n \<noteq> 1"
  by (auto simp: word_le_nat_alt)

text \<open>
  Claim C3. \<open>max_clients\<close> and \<open>multi_client\<close> with 0 or 1 throw
  \<^verbatim>\<open>std::invalid_argument\<close> in the call itself; with any n from 2 on they return the
  builder with n stored as the limit and the limit marked as set. \<open>single_client\<close> and
  \<open>unlimited_clients\<close> never throw: they store the limit 1 and the limit 0, which stands
  for "no limit".
\<close>

theorem client_limit_configuration:
  "(n = 0 \<or> n = 1 \<longrightarrow>
      max_clients b n = Inl InvalidArgument \<and> multi_client b n = Inl InvalidArgument)
   \<and> (2 \<le> n \<longrightarrow>
        max_clients b n = Inr (b\<lparr>bld_max_clients := n, bld_client_limit_set := True\<rparr>)
      \<and> multi_client b n = Inr (b\<lparr>bld_max_clients := n, bld_client_limit_set := True\<rparr>))
   \<and> single_client b = b\<lparr>bld_max_clients := 1, bld_client_limit_set := True\<rparr>
   \<and> unlimited_clients b = b\<lparr>bld_max_clients := 0, bld_client_limit_set := True\<rparr>"
  using two_le_size_t [of n]
  by (auto simp: max_clients_def multi_client_def single_client_def unlimited_clients_def)

theorem client_limit_configuration_witness:
  "max_clients (projr (TcpServerBuilder 8080)) 0 = Inl InvalidArgument
   \<and> multi_client (projr (TcpServerBuilder 8080)) 1 = Inl InvalidArgument
   \<and> (2::64 word) \<le> 5
   \<and> max_clients (projr (TcpServerBuilder 8080)) 5 =
       Inr ((projr (TcpServerBuilder 8080))\<lparr>bld_max_clients := 5, bld_client_limit_set := True\<rparr>)
   \<and> multi_client (projr (TcpServerBuilder 8080)) 5 =
       Inr ((projr (TcpServerBuilder 8080))\<lparr>bld_max_clients := 5, bld_client_limit_set := True\<rparr>)"
proof -
  have le: "(2::64 word) \<le> 5"
    by (simp add: word_le_nat_alt)
  from le client_limit_configuration [of 0 "projr (TcpServerBuilder 8080)"]
    client_limit_configuration [of 1 "projr (TcpServerBuilder 8080)"]
    client_limit_configuration [of 5 "projr (TcpServerBuilder 8080)"]
  show ?thesis
    by simp
qed

subsection \<open>The limit after a chain of calls\<close>

lemma call_caught_limit:
  "bld_client_limit_set (call_caught b c) = (bld_client_limit_set b \<or> limit_set_by c \<noteq> None)
   \<and> bld_max_clients (call_caught b c) =
       (case limit_set_by c of None \<Rightarrow> bld_max_clients b | Some l \<Rightarrow> l)
   \<and> bld_port (call_caught b c) = bld_port b"
  by (cases c)
     (auto simp: call_caught_def max_clients_def multi_client_def single_client_def
        unlimited_clients_def builder_auto_start_def builder_auto_manage_def builder_on_data_def
        builder_on_connect_def builder_on_disconnect_def builder_on_error_def
        use_independent_context_def builder_on_multi_connect_def builder_on_multi_data_def
        builder_on_multi_disconnect_def builder_enable_port_retry_def)

lemma calls_caught_limit:
  "bld_client_limit_set (calls_caught b cs) = (bld_client_limit_set b \<or> last_limit cs \<noteq> None)
   \<and> bld_max_clients (calls_caught b cs) =
       (case last_limit cs of None \<Rightarrow> bld_max_clients b | Some l \<Rightarrow> l)"
proof (induction cs arbitrary: b)
  case Nil
  then show ?case by simp
next
  case (Cons c cs)
  from call_caught_limit [of b c] Cons.IH [of "call_caught b c"] show ?case
    by (auto split: option.splits)
qed

lemma last_limit_None:
  "(last_limit cs = None) = (\<forall>c \<in> set cs. limit_set_by c = None)"
  by (induction cs) (auto split: option.splits)

text \<open>A chain in which every call returned is a sequence in which nothing was caught.\<close>

lemma calls_returned_caught:
  "calls b cs = Inr b1 \<Longrightarrow> calls_caught b cs = b1"
  by (induction cs arbitrary: b) (auto simp: call_caught_def split: sum.splits)

lemma TcpServerBuilder_limit_unset:
  "TcpServerBuilder port = Inr b0 \<Longrightarrow> \<not> bld_client_limit_set b0"
  by (auto simp: TcpServerBuilder_def split: sum.splits exn.splits)

subsection \<open>The limit through build\<close>

lemma then_do_keeps_limit:
  assumes "keeps_limit f"
  shows "srv_max_clients (fst (then_do p f)) = srv_max_clients (fst p)
     \<and> srv_client_limit_enabled (fst (then_do p f)) = srv_client_limit_enabled (fst p)"
proof -
  obtain s evs where f: "f (fst p) = (s, evs)"
    by (cases "f (fst p)")
  from assms have "srv_max_clients (fst (f (fst p))) = srv_max_clients (fst p)
     \<and> srv_client_limit_enabled (fst (f (fst p))) = srv_client_limit_enabled (fst p)"
    unfolding keeps_limit_def by blast
  with f show ?thesis
    by (simp add: then_do_def)
qed

lemma keeps_limit_setters:
  "keeps_limit skip"
  "keeps_limit (\<lambda>s. auto_manage s v)"
  "keeps_limit (\<lambda>s. on_data s h)"
  "keeps_limit (\<lambda>s. on_connect s h)"
  "keeps_limit (\<lambda>s. on_disconnect s h)"
  "keeps_limit (\<lambda>s. on_error s h)"
  "keeps_limit (\<lambda>s. on_multi_connect s h)"
  "keeps_limit (\<lambda>s. on_multi_data s h)"
  "keeps_limit (\<lambda>s. on_multi_disconnect s h)"
  "keeps_limit (\<lambda>s. enable_port_retry s e m i)"
  by (simp_all add: keeps_limit_def skip_def auto_manage_def on_data_def on_connect_def
        on_disconnect_def on_error_def on_multi_connect_def on_multi_data_def
        on_multi_disconnect_def enable_port_retry_def)

lemma keeps_limit_if:
  "keeps_limit f \<Longrightarrow> keeps_limit g \<Longrightarrow> keeps_limit (\<lambda>s. if c then f s else g s)"
  by (simp add: keeps_limit_def)

lemma keeps_limit_auto_start:
  "keeps_client_limit a \<Longrightarrow> keeps_limit (\<lambda>s. a s v)"
  by (simp add: keeps_limit_def keeps_client_limit_def)

lemma keeps_client_limit_stored: "keeps_client_limit auto_start_stored"
  by (simp add: keeps_client_limit_def auto_start_stored_def)

lemma build_without_limit:
  "\<not> bld_client_limit_set b \<Longrightarrow> build a b = ([], Inl RuntimeError)"
  by (simp add: build_def)

lemma build_with_limit:
  assumes "bld_client_limit_set b" and "keeps_client_limit a \<or> \<not> bld_auto_start b"
  shows "\<exists>tr s. build a b = (tr, Inr s) \<and> srv_max_clients s = bld_max_clients b
            \<and> srv_client_limit_enabled s = (bld_max_clients b \<noteq> 0)"
proof -
  let ?s1 = "then_do (TcpServer (bld_port b),
                (if bld_use_independent_context b then [CreateIndependentContext]
                 else [EnsureIoContextRunning]) @ [ConstructServer (bld_port b)])
              (\<lambda>s. if bld_client_limit_set b
                    then (if bld_max_clients b = 0 then set_unlimited_clients s
                          else set_client_limit s (bld_max_clients b))
                    else skip s)"
  have s1: "srv_max_clients (fst ?s1) = bld_max_clients b
      \<and> srv_client_limit_enabled (fst ?s1) = (bld_max_clients b \<noteq> 0)"
    using assms(1)
    by (simp add: then_do_def set_unlimited_clients_def set_client_limit_def split: prod.splits)
  have start: "keeps_limit (\<lambda>s. if bld_auto_start b then a s True else skip s)"
  proof (cases "bld_auto_start b")
    case True
    with assms(2) have "keeps_client_limit a"
      by simp
    then show ?thesis
      by (simp add: keeps_limit_if keeps_limit_setters keeps_limit_auto_start)
  next
    case False
    then show ?thesis
      by (simp add: keeps_limit_setters)
  qed
  have step: "srv_max_clients (fst (then_do p (\<lambda>s. if bld_auto_start b then a s True else skip s)))
        = srv_max_clients (fst p)
     \<and> srv_client_limit_enabled (fst (then_do p (\<lambda>s. if bld_auto_start b then a s True else skip s)))
        = srv_client_limit_enabled (fst p)" for p
    using start by (rule then_do_keeps_limit)
  have other: "srv_max_clients (fst (then_do p (\<lambda>s. if c then f s else skip s)))
        = srv_max_clients (fst p)
     \<and> srv_client_limit_enabled (fst (then_do p (\<lambda>s. if c then f s else skip s)))
        = srv_client_limit_enabled (fst p)" if "keeps_limit f" for p c f
    using that by (intro then_do_keeps_limit keeps_limit_if keeps_limit_setters)
  note o = other [OF keeps_limit_setters(2)] other [OF keeps_limit_setters(3)]
    other [OF keeps_limit_setters(4)] other [OF keeps_limit_setters(5)]
    other [OF keeps_limit_setters(6)] other [OF keeps_limit_setters(7)]
    other [OF keeps_limit_setters(8)] other [OF keeps_limit_setters(9)]
    other [OF keeps_limit_setters(10)]
  show ?thesis
    using assms(1) s1
    by (simp add: build_def Let_def step o)
qed

text \<open>
  Claim C9, as the claim states it: \<open>build\<close> throws whenever none of \<open>single_client\<close>,
  \<open>multi_client\<close> and \<open>unlimited_clients\<close> was called. The builder has a fourth call
  that sets the limit: after \<open>max_clients\<close> with 5 alone, \<open>build\<close> returns a server with
  the limit 5.
\<close>

theorem build_after_max_clients_succeeds:
  "\<not> list_ex named_in_message [Call_max_clients 5]
   \<and> snd (build_chain auto_start_stored 8080 [Call_max_clients 5]) =
       Inr ((TcpServer 8080)\<lparr>srv_client_limit_enabled := True, srv_max_clients := 5\<rparr>)"
  by (simp add: build_chain_def TcpServerBuilder_def validate_port_def max_clients_def
        build_def then_do_def skip_def set_client_limit_def transport_server_def TcpServer_def)

text \<open>
  Claim C9, amended. Take the builder that the constructor returned and any sequence of
  calls on it, each of which returned or threw an exception that was caught (\<open>max_clients\<close>
  and \<open>multi_client\<close> with 0 or 1 throw and leave the builder as it was). If none of
  the calls that returned was \<open>single_client\<close>, \<open>multi_client\<close>, \<open>max_clients\<close> or
  \<open>unlimited_clients\<close>, then \<open>build\<close> throws and no event has happened before (no
  context, no server, no channel was made). If such a call returned, then \<open>build\<close>
  returns a server that carries the limit of the last such call, enabled unless the
  limit is 0, which stands for "unlimited"; when \<open>auto_start\<close> is set on the builder,
  this is under the proviso that the \<open>auto_start\<close> of the wrapper returns and leaves
  the limit of the server as it is.
\<close>

theorem build_needs_client_limit:
  assumes "TcpServerBuilder port = Inr b0"
  shows "((\<forall>c \<in> set cs. limit_set_by c = None) \<longrightarrow>
            build a (calls_caught b0 cs) = ([], Inl RuntimeError))
    \<and> (\<forall>l. last_limit cs = Some l
            \<and> (keeps_client_limit a \<or> \<not> bld_auto_start (calls_caught b0 cs)) \<longrightarrow>
          (case snd (build a (calls_caught b0 cs)) of
             Inl e \<Rightarrow> False
           | Inr s \<Rightarrow> srv_max_clients s = l \<and> srv_client_limit_enabled s = (l \<noteq> 0)))"
proof -
  let ?b = "calls_caught b0 cs"
  have unset: "\<not> bld_client_limit_set b0"
    using assms by (rule TcpServerBuilder_limit_unset)
  note lim = calls_caught_limit [of b0 cs]
  have "build a ?b = ([], Inl RuntimeError)" if "\<forall>c \<in> set cs. limit_set_by c = None"
  proof -
    from that have "last_limit cs = None"
      by (simp add: last_limit_None)
    with lim unset have "\<not> bld_client_limit_set ?b"
      by simp
    then show ?thesis
      by (rule build_without_limit)
  qed
  moreover have "case snd (build a ?b) of
             Inl e \<Rightarrow> False
           | Inr s \<Rightarrow> srv_max_clients s = l \<and> srv_client_limit_enabled s = (l \<noteq> 0)"
    if "last_limit cs = Some l" and "keeps_client_limit a \<or> \<not> bld_auto_start ?b" for l
  proof -
    from that(1) lim have "bld_client_limit_set ?b" and "bld_max_clients ?b = l"
      by simp_all
    with build_with_limit [OF this(1) that(2)] show ?thesis
      by auto
  qed
  ultimately show ?thesis
    by blast
qed

theorem build_needs_client_limit_witness:
  "build auto_start_stored
     (calls_caught (projr (TcpServerBuilder 8080))
        [Call_multi_client 1, Call_auto_manage True, Call_max_clients 0]) =
     ([], Inl RuntimeError)
   \<and> (case snd (build auto_start_stored
                  (calls_caught (projr (TcpServerBuilder 8080))
                     [Call_single_client, Call_auto_start True, Call_multi_client 3,
                      Call_max_clients 1])) of
        Inl e \<Rightarrow> False
      | Inr s \<Rightarrow> srv_max_clients s = 3 \<and> srv_client_limit_enabled s)"
proof -
  let ?b0 = "projr (TcpServerBuilder 8080)"
  let ?cs1 = "[Call_multi_client 1, Call_auto_manage True, Call_max_clients 0]"
  let ?cs2 = "[Call_single_client, Call_auto_start True, Call_multi_client 3, Call_max_clients 1]"
  have b0: "TcpServerBuilder 8080 = Inr ?b0"
    by (simp add: TcpServerBuilder_def validate_port_def)
  have r1: "\<forall>c \<in> set ?cs1. limit_set_by c = None"
    by simp
  have r2: "last_limit ?cs2 = Some 3
      \<and> (keeps_client_limit auto_start_stored \<or> \<not> bld_auto_start (calls_caught ?b0 ?cs2))"
    by (simp add: keeps_client_limit_stored)
  from build_needs_client_limit [OF b0, of ?cs1 auto_start_stored, THEN conjunct1, THEN mp, OF r1]
  have f1: "build auto_start_stored (calls_caught ?b0 ?cs1) = ([], Inl RuntimeError)" .
  from build_needs_client_limit [OF b0, of ?cs2 auto_start_stored, THEN conjunct2, THEN spec,
      THEN mp, OF r2]
  have f2: "case snd (build auto_start_stored (calls_caught ?b0 ?cs2)) of
        Inl e \<Rightarrow> False
      | Inr s \<Rightarrow> srv_max_clients s = 3 \<and> srv_client_limit_enabled s"
    by (simp split: sum.splits)
  from f1 f2 show ?thesis
    by (rule conjI)
qed

section \<open>Properties of the error handler\<close>

subsection \<open>Keeping the most recent entries\<close>

lemma erase_oldest_most_recent: "erase_oldest n v = most_recent n v"
  by (simp add: erase_oldest_def most_recent_def)

lemma length_most_recent: "length (most_recent n xs) = min n (length xs)"
  by (simp add: most_recent_def)

lemma most_recent_append: "most_recent n (most_recent n xs @ ys) = most_recent n (xs @ ys)"
proof (cases "length xs \<le> n")
  case True
  then show ?thesis
    by (simp add: most_recent_def)
next
  case False
  then have "length xs > n"
    by simp
  then show ?thesis
    by (simp add: most_recent_def add.commute)
qed

subsection \<open>One report\<close>

lemma report_error_keeps_settings:
  "eh_enabled (fst (report_error h e)) = eh_enabled h
   \<and> eh_min_level (fst (report_error h e)) = eh_min_level h
   \<and> eh_callbacks (fst (report_error h e)) = eh_callbacks h"
  by (simp add: report_error_def)

lemma recorded_report_error: "recorded (fst (report_error h e)) = recorded h"
  by (rule ext) (simp add: recorded_def report_error_keeps_settings)

lemma report_error_component:
  "get_errors_by_component (fst (report_error h e)) c =
     (if recorded h e \<and> component e = c
      then most_recent MAX_COMPONENT_ERRORS (get_errors_by_component h c @ [e])
      else get_errors_by_component h c)"
  by (auto simp: report_error_def recorded_def get_errors_by_component_def
        add_to_component_errors_def erase_oldest_most_recent Let_def split: option.splits)

text \<open>
  Claim C5. When the handler is enabled and the level of the error is at least the
  minimum level, \<open>report_error\<close> counts the error (in the total, for its level, for its
  category, as retryable if it is, and as the last error), appends it to the recent
  errors and to the errors of its component, each cut to its most recent entries, and
  invokes every registered callback with it, in the order of registration. When the
  handler is disabled or the level is below the minimum, it returns the handler as it
  was and invokes no callback.
\<close>

theorem report_error_gate:
  "(eh_enabled h \<and> level_value (eh_min_level h) \<le> level_value (level e) \<longrightarrow>
      (case report_error h e of (h', invoked) \<Rightarrow>
         total_errors (eh_stats h') = total_errors (eh_stats h) + 1
       \<and> errors_by_level (eh_stats h') (level e) = errors_by_level (eh_stats h) (level e) + 1
       \<and> errors_by_category (eh_stats h') (category e) =
           errors_by_category (eh_stats h) (category e) + 1
       \<and> retryable_errors (eh_stats h') =
           retryable_errors (eh_stats h) + (if retryable e then 1 else 0)
       \<and> last_error (eh_stats h') = timestamp e
       \<and> eh_recent_errors h' = most_recent MAX_RECENT_ERRORS (eh_recent_errors h @ [e])
       \<and> get_errors_by_component h' (component e) =
           most_recent MAX_COMPONENT_ERRORS (get_errors_by_component h (component e) @ [e])
       \<and> invoked = map (\<lambda>callback. CallErrorCallback callback e) (eh_callbacks h)))
   \<and> (\<not> eh_enabled h \<or> level_value (level e) < level_value (eh_min_level h) \<longrightarrow>
        report_error h e = (h, []))"
proof -
  have gate: "\<not> eh_enabled h \<or> level_value (level e) < level_value (eh_min_level h) \<Longrightarrow>
        report_error h e = (h, [])"
    by (auto simp: report_error_def)
  have rec: "eh_enabled h \<and> level_value (eh_min_level h) \<le> level_value (level e) \<Longrightarrow>
     report_error h e =
       (h\<lparr>eh_stats := update_stats (eh_stats h) e,
          eh_recent_errors := add_to_recent_errors (eh_recent_errors h) e,
          eh_errors_by_component := add_to_component_errors (eh_errors_by_component h) e\<rparr>,
        notify_callbacks (eh_callbacks h) e)"
    by (auto simp: report_error_def)
  have stats: "total_errors (update_stats st e) = total_errors st + 1
       \<and> errors_by_level (update_stats st e) (level e) = errors_by_level st (level e) + 1
       \<and> errors_by_category (update_stats st e) (category e) =
           errors_by_category st (category e) + 1
       \<and> retryable_errors (update_stats st e) =
           retryable_errors st + (if retryable e then 1 else 0)
       \<and> last_error (update_stats st e) = timestamp e" for st
    by (simp add: update_stats_def Let_def)
  have comp: "get_errors_by_component
       (h\<lparr>eh_stats := a, eh_recent_errors := r,
          eh_errors_by_component := add_to_component_errors (eh_errors_by_component h) e\<rparr>)
       (component e)
       = most_recent MAX_COMPONENT_ERRORS (get_errors_by_component h (component e) @ [e])" for a r
    by (simp add: get_errors_by_component_def add_to_component_errors_def
          erase_oldest_most_recent Let_def split: option.splits)
  show ?thesis
    using gate rec stats [of "eh_stats h"] comp
    by (auto simp: add_to_recent_errors_def erase_oldest_most_recent notify_callbacks_def)
qed

theorem report_error_gate_witness:
  "(case report_error
      \<lparr>eh_enabled = True, eh_min_level = WARNING,
       eh_stats = \<lparr>total_errors = 0, errors_by_level = (\<lambda>l. 0), errors_by_category = (\<lambda>c. 0),
         retryable_errors = 0, first_error = 0, last_error = 0\<rparr>,
       eh_recent_errors = [], eh_errors_by_component = Map.empty, eh_callbacks = [1, 2]\<rparr>
      \<lparr>level = ERROR, category = CONNECTION, component = ''tcp_client'',
       operation = ''connect'', message = ''refused'', error_code = None, retryable = True,
       timestamp = 5\<rparr> of
      (h', invoked) \<Rightarrow>
        total_errors (eh_stats h') = 1
      \<and> errors_by_level (eh_stats h') ERROR = 1
      \<and> last_error (eh_stats h') = 5
      \<and> eh_recent_errors h' = [\<lparr>level = ERROR, category = CONNECTION, component = ''tcp_client'',
       operation = ''connect'', message = ''refused'', error_code = None, retryable = True,
       timestamp = 5\<rparr>]
      \<and> get_errors_by_component h' ''tcp_client'' = [\<lparr>level = ERROR, category = CONNECTION, component = ''tcp_client'',
       operation = ''connect'', message = ''refused'', error_code = None, retryable = True,
       timestamp = 5\<rparr>]
      \<and> invoked = [CallErrorCallback 1 \<lparr>level = ERROR, category = CONNECTION, component = ''tcp_client'',
       operation = ''connect'', message = ''refused'', error_code = None, retryable = True,
       timestamp = 5\<rparr>, CallErrorCallback 2 \<lparr>level = ERROR, category = CONNECTION, component = ''tcp_client'',
       operation = ''connect'', message = ''refused'', error_code = None, retryable = True,
       timestamp = 5\<rparr>])
   \<and> report_error
      \<lparr>eh_enabled = True, eh_min_level = WARNING,
       eh_stats = \<lparr>total_errors = 0, errors_by_level = (\<lambda>l. 0), errors_by_category = (\<lambda>c. 0),
         retryable_errors = 0, first_error = 0, last_error = 0\<rparr>,
       eh_recent_errors = [], eh_errors_by_component = Map.empty, eh_callbacks = [1, 2]\<rparr>
      \<lparr>level = INFO, category = CONNECTION, component = ''tcp_client'',
       operation = ''connect'', message = ''refused'', error_code = None, retryable = True,
       timestamp = 5\<rparr> = (\<lparr>eh_enabled = True, eh_min_level = WARNING,
       eh_stats = \<lparr>total_errors = 0, errors_by_level = (\<lambda>l. 0), errors_by_category = (\<lambda>c. 0),
         retryable_errors = 0, first_error = 0, last_error = 0\<rparr>,
       eh_recent_errors = [], eh_errors_by_component = Map.empty, eh_callbacks = [1, 2]\<rparr>, [])"
proof -
  let ?h = "\<lparr>eh_enabled = True, eh_min_level = WARNING,
       eh_stats = \<lparr>total_errors = 0, errors_by_level = (\<lambda>l. 0), errors_by_category = (\<lambda>c. 0),
         retryable_errors = 0, first_error = 0, last_error = 0\<rparr>,
       eh_recent_errors = [], eh_errors_by_component = Map.empty, eh_callbacks = [1, 2]\<rparr>"
  let ?e = "\<lparr>level = ERROR, category = CONNECTION, component = ''tcp_client'',
       operation = ''connect'', message = ''refused'', error_code = None, retryable = True,
       timestamp = 5\<rparr>"
  let ?i = "\<lparr>level = INFO, category = CONNECTION, component = ''tcp_client'',
       operation = ''connect'', message = ''refused'', error_code = None, retryable = True,
       timestamp = 5\<rparr>"
  have p: "eh_enabled ?h \<and> level_value (eh_min_level ?h) \<le> level_value (level ?e)"
    by simp
  have q: "\<not> eh_enabled ?h \<or> level_value (level ?i) < level_value (eh_min_level ?h)"
    by simp
  from report_error_gate [of ?h ?e, THEN conjunct1, THEN mp, OF p]
  have first: "case report_error ?h ?e of (h', invoked) \<Rightarrow>
        total_errors (eh_stats h') = 1
      \<and> errors_by_level (eh_stats h') ERROR = 1
      \<and> last_error (eh_stats h') = 5
      \<and> eh_recent_errors h' = [?e]
      \<and> get_errors_by_component h' ''tcp_client'' = [?e]
      \<and> invoked = [CallErrorCallback 1 ?e, CallErrorCallback 2 ?e]"
    by (simp add: most_recent_def get_errors_by_component_def MAX_RECENT_ERRORS_def
          MAX_COMPONENT_ERRORS_def split: prod.splits)
  from report_error_gate [of ?h ?i, THEN conjunct2, THEN mp, OF q]
  have second: "report_error ?h ?i = (?h, [])" .
  from first second show ?thesis
    by (rule conjI)
qed

subsection \<open>A sequence of reports\<close>

lemma report_errors_component:
  "get_errors_by_component (fst (report_errors h es)) c =
     (if filter (\<lambda>e. component e = c) (filter (recorded h) es) = []
      then get_errors_by_component h c
      else most_recent MAX_COMPONENT_ERRORS
             (get_errors_by_component h c
                @ filter (\<lambda>e. component e = c) (filter (recorded h) es)))"
proof (induction es arbitrary: h)
  case Nil
  then show ?case by simp
next
  case (Cons e es)
  obtain h1 calls1 where r: "report_error h e = (h1, calls1)"
    by (cases "report_error h e")
  have h1: "h1 = fst (report_error h e)"
    using r by simp
  have rec: "recorded h1 = recorded h"
    unfolding h1 by (rule recorded_report_error)
  have comp: "get_errors_by_component h1 c =
     (if recorded h e \<and> component e = c
      then most_recent MAX_COMPONENT_ERRORS (get_errors_by_component h c @ [e])
      else get_errors_by_component h c)"
    unfolding h1 by (rule report_error_component)
  have step: "fst (report_errors h (e # es)) = fst (report_errors h1 es)"
    using r by (simp split: prod.splits)
  from Cons.IH [of h1] show ?case
    unfolding step rec comp
    by (auto simp: most_recent_append)
qed

text \<open>
  Claim C6. Start from a handler that holds no error of any component. After any finite
  sequence of \<open>report_error\<close> calls, the errors of a component hold at most 100 entries,
  and they are the most recent ones among the errors of that component that the handler
  recorded, in the order of the reports: the oldest entries are the ones that went.
\<close>

theorem component_errors_most_recent:
  assumes "eh_errors_by_component h0 = Map.empty"
  shows "length (get_errors_by_component (fst (report_errors h0 es)) c) \<le> 100
    \<and> get_errors_by_component (fst (report_errors h0 es)) c =
        most_recent 100 (filter (\<lambda>e. component e = c) (filter (recorded h0) es))"
proof -
  have "get_errors_by_component h0 c = []"
    using assms by (simp add: get_errors_by_component_def)
  then have "get_errors_by_component (fst (report_errors h0 es)) c =
        most_recent 100 (filter (\<lambda>e. component e = c) (filter (recorded h0) es))"
    by (simp add: report_errors_component MAX_COMPONENT_ERRORS_def most_recent_def)
  then show ?thesis
    by (simp add: length_most_recent)
qed

theorem component_errors_most_recent_witness:
  "eh_errors_by_component
      \<lparr>eh_enabled = True, eh_min_level = WARNING,
       eh_stats = \<lparr>total_errors = 0, errors_by_level = (\<lambda>l. 0), errors_by_category = (\<lambda>c. 0),
         retryable_errors = 0, first_error = 0, last_error = 0\<rparr>,
       eh_recent_errors = [], eh_errors_by_component = Map.empty, eh_callbacks = [1, 2]\<rparr> = Map.empty
   \<and> get_errors_by_component
       (fst (report_errors
          \<lparr>eh_enabled = True, eh_min_level = WARNING,
       eh_stats = \<lparr>total_errors = 0, errors_by_level = (\<lambda>l. 0), errors_by_category = (\<lambda>c. 0),
         retryable_errors = 0, first_error = 0, last_error = 0\<rparr>,
       eh_recent_errors = [], eh_errors_by_component = Map.empty, eh_callbacks = [1, 2]\<rparr>
          [\<lparr>level = ERROR, category = CONNECTION, component = ''tcp_client'',
       operation = ''connect'', message = ''refused'', error_code = None, retryable = True,
       timestamp = 5\<rparr>,
           \<lparr>level = INFO, category = CONNECTION, component = ''tcp_client'',
       operation = ''connect'', message = ''refused'', error_code = None, retryable = True,
       timestamp = 5\<rparr>,
           \<lparr>level = ERROR, category = CONNECTION, component = ''serial'',
       operation = ''connect'', message = ''refused'', error_code = None, retryable = True,
       timestamp = 5\<rparr>,
           \<lparr>level = CRITICAL, category = CONNECTION, component = ''tcp_client'',
       operation = ''connect'', message = ''refused'', error_code = None, retryable = True,
       timestamp = 5\<rparr>]))
       ''tcp_client''
     = [\<lparr>level = ERROR, category = CONNECTION, component = ''tcp_client'',
       operation = ''connect'', message = ''refused'', error_code = None, retryable = True,
       timestamp = 5\<rparr>,
        \<lparr>level = CRITICAL, category = CONNECTION, component = ''tcp_client'',
       operation = ''connect'', message = ''refused'', error_code = None, retryable = True,
       timestamp = 5\<rparr>]"
proof -
  let ?h = "\<lparr>eh_enabled = True, eh_min_level = WARNING,
       eh_stats = \<lparr>total_errors = 0, errors_by_level = (\<lambda>l. 0), errors_by_category = (\<lambda>c. 0),
         retryable_errors = 0, first_error = 0, last_error = 0\<rparr>,
       eh_recent_errors = [], eh_errors_by_component = Map.empty, eh_callbacks = [1, 2]\<rparr>"
  let ?es = "[\<lparr>level = ERROR, category = CONNECTION, component = ''tcp_client'',
       operation = ''connect'', message = ''refused'', error_code = None, retryable = True,
       timestamp = 5\<rparr>,
           \<lparr>level = INFO, category = CONNECTION, component = ''tcp_client'',
       operation = ''connect'', message = ''refused'', error_code = None, retryable = True,
       timestamp = 5\<rparr>,
           \<lparr>level = ERROR, category = CONNECTION, component = ''serial'',
       operation = ''connect'', message = ''refused'', error_code = None, retryable = True,
       timestamp = 5\<rparr>,
           \<lparr>level = CRITICAL, category = CONNECTION, component = ''tcp_client'',
       operation = ''connect'', message = ''refused'', error_code = None, retryable = True,
       timestamp = 5\<rparr>]"
  have e: "eh_errors_by_component ?h = Map.empty"
    by simp
  from component_errors_most_recent [OF e, of ?es "''tcp_client''"]
  have "get_errors_by_component (fst (report_errors ?h ?es)) ''tcp_client'' =
        most_recent 100 (filter (\<lambda>e. component e = ''tcp_client'') (filter (recorded ?h) ?es))"
    by (rule conjunct2)
  then have "get_errors_by_component (fst (report_errors ?h ?es)) ''tcp_client'' =
     [\<lparr>level = ERROR, category = CONNECTION, component = ''tcp_client'',
       operation = ''connect'', message = ''refused'', error_code = None, retryable = True,
       timestamp = 5\<rparr>,
      \<lparr>level = CRITICAL, category = CONNECTION, component = ''tcp_client'',
       operation = ''connect'', message = ''refused'', error_code = None, retryable = True,
       timestamp = 5\<rparr>]"
    by (simp add: recorded_def most_recent_def)
  with e show ?thesis
    by (rule conjI)
qed

end
